theory Spec2Isabelle
  imports
    Complex_Main
    "HOL-Library.Char_ord"
    "HOL-Library.List_Lexorder"
    "HOL-Library.Product_Lexorder"
    "HOL-Library.Multiset"
    "HOL-Library.Sublist"
begin

section \<open>Data model\<close>

text \<open>
  The dashboard script \<^verbatim>\<open>app.py\<close> works on a pandas DataFrame read from a CSV file.
  A cell of the table is a missing value, a text or a number. Numbers are exact
  rationals here: the rounding of 64-bit floating point is not part of the model.
\<close>

datatype cell = NaN | is_Str: Str string | is_Num: Num rat

text \<open>
  A frame is its column labels and its rows, each row holding one cell per column in
  the order of the labels. A row shorter than the label list reads as missing in the
  columns it lacks, as \<^verbatim>\<open>read_csv\<close> pads short lines.
\<close>

record frame =
  columns :: "string list"
  rows :: "cell list list"

fun pos :: "string \<Rightarrow> string list \<Rightarrow> nat" where
  "pos c [] = 0"
| "pos c (x # xs) = (if c = x then 0 else Suc (pos c xs))"

definition cell_at :: "frame \<Rightarrow> string \<Rightarrow> cell list \<Rightarrow> cell" where
  "cell_at f c r = (let i = pos c (columns f) in if i < length r then r ! i else NaN)"

text \<open>
  \<^verbatim>\<open>df[c]\<close> as a Series. pandas raises KeyError for a label that is absent; for a
  label carried by several columns it returns a DataFrame, on which the calls the script
  makes next (\<^verbatim>\<open>pd.to_numeric\<close>, \<^verbatim>\<open>.unique()\<close>) raise.
\<close>

datatype exn =
    KeyError string
  | DuplicateLabel string
  | TypeError
  | IndexError
  | FileNotFoundError
  | ParserError
  | ConnectionError
  | JSONDecodeError

definition column :: "frame \<Rightarrow> string \<Rightarrow> exn + cell list" where
  "column f c =
     (if c \<notin> set (columns f) then Inl (KeyError c)
      else if count_list (columns f) c = 1 then Inr (map (cell_at f c) (rows f))
      else Inl (DuplicateLabel c))"

section \<open>Data loader (lines 16 to 24)\<close>

text \<open>
  \<^verbatim>\<open>load_data\<close> returns the frame \<^verbatim>\<open>read_csv\<close> gives, and \<^verbatim>\<open>None\<close> for whatever
  exception it raises. The outcome of \<^verbatim>\<open>read_csv\<close> is an input of the model.
\<close>

definition load_data :: "exn + frame \<Rightarrow> frame option" where
  "load_data read_csv = (case read_csv of Inl _ \<Rightarrow> None | Inr f \<Rightarrow> Some f)"

section \<open>Schema normalizer (lines 30 to 48)\<close>

text \<open>
  \<^verbatim>\<open>c.strip().lower().replace(" ", "_")\<close> on characters below 256: the white space
  \<^verbatim>\<open>str.strip\<close> removes, and the letters \<^verbatim>\<open>str.lower\<close> maps to lower case.
\<close>

definition is_space :: "char \<Rightarrow> bool" where
  "is_space c = (of_char c \<in> set [9, 10, 11, 12, 13, 28, 29, 30, 31, 32, 133, 160 :: nat])"

definition strip :: "string \<Rightarrow> string" where
  "strip s = rev (dropWhile is_space (rev (dropWhile is_space s)))"

definition lower_char :: "char \<Rightarrow> char" where
  "lower_char c =
     (let n = (of_char c :: nat)
      in if (65 \<le> n \<and> n \<le> 90) \<or> (192 \<le> n \<and> n \<le> 222 \<and> n \<noteq> 215)
         then char_of (n + 32) else c)"

definition lower :: "string \<Rightarrow> string" where
  "lower s = map lower_char s"

definition replace_space :: "string \<Rightarrow> string" where
  "replace_space s = map (\<lambda>c. if c = CHR '' '' then CHR ''_'' else c) s"

definition norm_name :: "string \<Rightarrow> string" where
  "norm_name c = replace_space (lower (strip c))"

definition required_cols :: "string list" where
  "required_cols =
     [''state_of_residence'', ''month'', ''month_code'', ''year_code'',
      ''sex_of_infant'', ''births'']"

definition missing :: "frame \<Rightarrow> string list" where
  "missing df = filter (\<lambda>c. c \<notin> set (columns df)) required_cols"

text \<open>
  \<^verbatim>\<open>pd.to_numeric(..., errors="coerce")\<close>: a number stays, a missing value stays
  missing, a text is parsed and becomes missing when it is no number. The parser of
  numeric text belongs to pandas and is a parameter.
\<close>

definition to_numeric :: "(string \<Rightarrow> rat option) \<Rightarrow> cell \<Rightarrow> cell" where
  "to_numeric parse c =
     (case c of
        NaN \<Rightarrow> NaN
      | Num x \<Rightarrow> Num x
      | Str s \<Rightarrow> (case parse s of None \<Rightarrow> NaN | Some x \<Rightarrow> Num x))"

definition assign :: "frame \<Rightarrow> string \<Rightarrow> (cell \<Rightarrow> cell) \<Rightarrow> frame" where
  "assign f c g =
     f\<lparr>rows := map (\<lambda>r. let i = pos c (columns f)
                         in if i < length r then r[i := g (r ! i)] else r) (rows f)\<rparr>"

definition dropna :: "frame \<Rightarrow> string \<Rightarrow> frame" where
  "dropna f c = f\<lparr>rows := filter (\<lambda>r. cell_at f c r \<noteq> NaN) (rows f)\<rparr>"

text \<open>
  The normalizer ends in one of three ways: the script halts on missing columns
  (\<^verbatim>\<open>st.error\<close> and \<^verbatim>\<open>st.stop\<close>), an exception escapes, or the clean frame is bound
  to \<^verbatim>\<open>df\<close>.
\<close>

datatype error = MissingColumns "string list" | Raised exn

definition rename :: "frame \<Rightarrow> frame" where
  "rename df_raw = df_raw\<lparr>columns := map norm_name (columns df_raw)\<rparr>"

definition normalize :: "(string \<Rightarrow> rat option) \<Rightarrow> frame \<Rightarrow> error + frame" where
  "normalize parse df_raw =
     (let df = rename df_raw
      in if missing df \<noteq> [] then Inl (MissingColumns (missing df))
         else (case column df ''births'' of
                 Inl e \<Rightarrow> Inl (Raised e)
               | Inr _ \<Rightarrow> Inr (dropna (assign df ''births'' (to_numeric parse)) ''births'')))"

section \<open>Sidebar options (lines 57 to 59)\<close>

text \<open>
  \<^verbatim>\<open>sorted(df[c].dropna().unique())\<close>. \<^verbatim>\<open>unique\<close> keeps the first occurrence of each
  value. Python compares texts by code point and numbers by value, and raises
  TypeError when it has to compare a text with a number.
\<close>

definition unique :: "'a list \<Rightarrow> 'a list" where
  "unique xs = rev (remdups (rev xs))"

fun cell_key :: "cell \<Rightarrow> nat \<times> rat \<times> string" where
  "cell_key NaN = (0, 0, [])"
| "cell_key (Num x) = (1, x, [])"
| "cell_key (Str s) = (2, 0, s)"

definition py_sorted :: "cell list \<Rightarrow> exn + cell list" where
  "py_sorted xs =
     (if list_ex is_Num xs \<and> list_ex is_Str xs then Inl TypeError
      else Inr (sort_key cell_key xs))"

definition options :: "frame \<Rightarrow> string \<Rightarrow> exn + cell list" where
  "options df c =
     (case column df c of
        Inl e \<Rightarrow> Inl e
      | Inr s \<Rightarrow> py_sorted (unique (filter (\<lambda>v. v \<noteq> NaN) s)))"

section \<open>Filter engine (lines 65 to 74)\<close>

definition isin :: "cell \<Rightarrow> cell list \<Rightarrow> bool" where
  "isin v sel = (v \<in> set sel)"

definition keep :: "frame \<Rightarrow> (cell list \<Rightarrow> bool) \<Rightarrow> frame" where
  "keep f cond = f\<lparr>rows := filter cond (rows f)\<rparr>"

definition filtered :: "frame \<Rightarrow> cell list \<Rightarrow> cell list \<Rightarrow> cell list \<Rightarrow> frame" where
  "filtered df state_sel gender_sel month_sel =
     (let f0 = df;
          f1 = (if Str ''All'' \<notin> set state_sel
                then keep f0 (\<lambda>r. isin (cell_at f0 ''state_of_residence'' r) state_sel)
                else f0);
          f2 = (if Str ''All'' \<notin> set gender_sel
                then keep f1 (\<lambda>r. isin (cell_at f1 ''sex_of_infant'' r) gender_sel)
                else f1);
          f3 = (if Str ''All'' \<notin> set month_sel
                then keep f2 (\<lambda>r. isin (cell_at f2 ''month'' r) month_sel)
                else f2)
      in f3)"

section \<open>Aggregator (lines 85 to 89 and 136 to 155)\<close>

text \<open>
  \<^verbatim>\<open>Series.sum\<close> skips missing values. \<^verbatim>\<open>groupby\<close> drops the rows whose key is
  missing and lists the groups by ascending key. \<^verbatim>\<open>int\<close> truncates towards zero.
\<close>

fun num :: "cell \<Rightarrow> rat" where
  "num (Num x) = x"
| "num _ = 0"

definition births :: "frame \<Rightarrow> cell list \<Rightarrow> rat" where
  "births f r = num (cell_at f ''births'' r)"

definition measure_sum :: "frame \<Rightarrow> rat" where
  "measure_sum f = sum_list (map (births f) (rows f))"

definition py_int :: "rat \<Rightarrow> int" where
  "py_int x = (if 0 \<le> x then \<lfloor>x\<rfloor> else \<lceil>x\<rceil>)"

definition group_keys :: "frame \<Rightarrow> string \<Rightarrow> cell list" where
  "group_keys f c =
     sort_key cell_key (unique (filter (\<lambda>v. v \<noteq> NaN) (map (cell_at f c) (rows f))))"

definition groupby_sum :: "frame \<Rightarrow> string \<Rightarrow> (cell \<times> rat) list" where
  "groupby_sum f c =
     map (\<lambda>k. (k, sum_list (map (births f) (filter (\<lambda>r. cell_at f c r = k) (rows f)))))
         (group_keys f c)"

text \<open>
  \<^verbatim>\<open>sort_values(ascending=False)\<close>: by descending value. pandas leaves the order of
  equal values open; the model keeps them in their order of arrival.
\<close>

definition sort_values_desc :: "(cell \<times> rat) list \<Rightarrow> (cell \<times> rat) list" where
  "sort_values_desc s = sort_key (\<lambda>kv. - snd kv) s"

definition agg :: "frame \<Rightarrow> (cell \<times> cell \<times> rat) list" where
  "agg f =
     map (\<lambda>(s, g). (s, g, sum_list (map (births f)
             (filter (\<lambda>r. cell_at f ''state_of_residence'' r = s
                          \<and> cell_at f ''sex_of_infant'' r = g) (rows f)))))
         (sort_key (\<lambda>(s, g). (cell_key s, cell_key g))
            (unique (filter (\<lambda>(s, g). s \<noteq> NaN \<and> g \<noteq> NaN)
               (map (\<lambda>r. (cell_at f ''state_of_residence'' r, cell_at f ''sex_of_infant'' r))
                    (rows f)))))"

section \<open>Conversational context (lines 136 to 167)\<close>

record chat_context =
  total_births :: int
  state_totals :: "(cell \<times> rat) list"
  gender_totals :: "(cell \<times> rat) list"
  monthly_totals :: "(cell \<times> rat) list"
  filters_applied :: "(string \<times> cell list) list"

definition build_context ::
  "frame \<Rightarrow> cell list \<Rightarrow> cell list \<Rightarrow> cell list \<Rightarrow> chat_context" where
  "build_context fl state_sel gender_sel month_sel =
     \<lparr>total_births = py_int (measure_sum fl),
      state_totals = sort_values_desc (groupby_sum fl ''state_of_residence''),
      gender_totals = groupby_sum fl ''sex_of_infant'',
      monthly_totals = groupby_sum fl ''month'',
      filters_applied =
        [(''states'', state_sel), (''gender'', gender_sel), (''months'', month_sel)]\<rparr>"

section \<open>Chat client and session (lines 119 to 213)\<close>

text \<open>
  The body of the \<^verbatim>\<open>try\<close> block reads the credential, posts the request and takes the
  reply text out of the response. What it does depends on the remote service, so its
  outcome is a parameter: the reply text, or the exception raised on the way. The
  system prompt is a fixed template around the JSON text of the context, so the
  request is given by the context and the question.
\<close>

type_synonym chat_api = "chat_context \<Rightarrow> string \<Rightarrow> exn + string"

definition fallback :: string where
  "fallback = ''The AI analyst is currently unavailable.''"

definition ask :: "chat_api \<Rightarrow> chat_context \<Rightarrow> string \<Rightarrow> string" where
  "ask api ctx question =
     (case api ctx question of Inl _ \<Rightarrow> fallback | Inr reply \<Rightarrow> reply)"

record turn =
  role :: string
  content :: string

section \<open>The page\<close>

text \<open>
  What one run of the script puts on the page, in order. An exception that escapes
  the script is shown by the framework and ends the run.
\<close>

datatype widget =
    Title string
  | Subheader string
  | Header string
  | SidebarHeader string
  | Markdown string
  | Error string
  | Warning string
  | Multiselect string "cell list" "cell list"
  | PlotlyChart "(cell \<times> cell \<times> rat) list"
  | Dataframe frame
  | ChatMessage string string
  | ChatInput string
  | Uncaught exn

text \<open>
  The f-string \<^verbatim>\<open>{missing}\<close> is the \<^verbatim>\<open>repr\<close> of a list of labels out of
  \<^verbatim>\<open>required_cols\<close>: each in single quotes, separated by a comma and a space.
\<close>

fun join :: "string \<Rightarrow> string list \<Rightarrow> string" where
  "join sep [] = []"
| "join sep [x] = x"
| "join sep (x # y # ys) = x @ sep @ join sep (y # ys)"

definition quoted :: "string \<Rightarrow> string" where
  "quoted x = [CHR 0x27] @ x @ [CHR 0x27]"

definition py_repr :: "string list \<Rightarrow> string" where
  "py_repr xs = ''['' @ join '', '' (map quoted xs) @ '']''"

text \<open>
  The inputs of one run: what \<^verbatim>\<open>read_csv\<close> does, what the three multiselects and the
  chat input return, and the conversation kept in the session (\<^verbatim>\<open>None\<close> while the
  session has no \<^verbatim>\<open>messages\<close> key).
\<close>

record inputs =
  read_csv :: "exn + frame"
  chosen_states :: "cell list"
  chosen_genders :: "cell list"
  chosen_months :: "cell list"
  chat_input :: "string option"
  session :: "turn list option"

definition banner :: "widget list" where
  "banner = [Title ''Provisional Natality Data Dashboard'',
             Subheader ''Birth Analysis by State and Gender'']"

definition sidebar :: "cell list \<Rightarrow> cell list \<Rightarrow> cell list \<Rightarrow> widget list" where
  "sidebar states genders months =
     [SidebarHeader ''Filters'',
      Multiselect ''State'' (Str ''All'' # states) [Str ''All''],
      Multiselect ''Gender'' (Str ''All'' # genders) [Str ''All''],
      Multiselect ''Month'' (Str ''All'' # months) [Str ''All'']]"

definition visualization :: "frame \<Rightarrow> widget list" where
  "visualization fl =
     [PlotlyChart (agg fl), Subheader ''Filtered Records'', Dataframe fl]"

definition chat_section ::
  "chat_api \<Rightarrow> frame \<Rightarrow> cell list \<Rightarrow> cell list \<Rightarrow> cell list \<Rightarrow> string option
     \<Rightarrow> turn list option \<Rightarrow> widget list \<times> turn list option" where
  "chat_section api fl state_sel gender_sel month_sel user_input sess =
     (let messages = (case sess of None \<Rightarrow> [] | Some ms \<Rightarrow> ms);
          top = [Markdown ''---'', Header ''AI Data Analyst'']
                @ map (\<lambda>msg. ChatMessage (role msg) (content msg)) messages
                @ [ChatInput ''Ask an analytical question about the data...'']
      in case user_input of
           None \<Rightarrow> (top, Some messages)
         | Some u \<Rightarrow>
             if u = [] then (top, Some messages)
             else
               (let messages1 = messages @ [\<lparr>role = ''user'', content = u\<rparr>];
                    context = build_context fl state_sel gender_sel month_sel;
                    result = ask api context u
                in (top @ [ChatMessage ''user'' u, ChatMessage ''assistant'' result],
                    Some (messages1 @ [\<lparr>role = ''assistant'', content = result\<rparr>]))))"

definition render ::
  "chat_api \<Rightarrow> frame \<Rightarrow> cell list \<Rightarrow> cell list \<Rightarrow> cell list \<Rightarrow> inputs
     \<Rightarrow> widget list \<times> turn list option" where
  "render api df states genders months inp =
     (let page = banner @ sidebar states genders months;
          fl = filtered df (chosen_states inp) (chosen_genders inp) (chosen_months inp)
      in if rows fl = []
         then (page @ [Warning ''No data matches selected filters.''], session inp)
         else
           (let (chat, sess) =
                  chat_section api fl (chosen_states inp) (chosen_genders inp)
                    (chosen_months inp) (chat_input inp) (session inp)
            in (page @ visualization fl @ chat, sess)))"

definition crash :: "exn \<Rightarrow> inputs \<Rightarrow> widget list \<times> turn list option" where
  "crash e inp = (banner @ [SidebarHeader ''Filters'', Uncaught e], session inp)"

definition run ::
  "(string \<Rightarrow> rat option) \<Rightarrow> chat_api \<Rightarrow> inputs \<Rightarrow> widget list \<times> turn list option" where
  "run parse api inp =
     (case load_data (read_csv inp) of
        None \<Rightarrow> (banner @ [Error ''Dataset file not found in repository.''], session inp)
      | Some df_raw \<Rightarrow>
          (case normalize parse df_raw of
             Inl (MissingColumns miss) \<Rightarrow>
               (banner @ [Error (''Missing required columns: '' @ py_repr miss)], session inp)
           | Inl (Raised e) \<Rightarrow> (banner @ [Uncaught e], session inp)
           | Inr df \<Rightarrow>
               (case options df ''state_of_residence'' of
                  Inl e \<Rightarrow> crash e inp
                | Inr states \<Rightarrow>
                    (case options df ''sex_of_infant'' of
                       Inl e \<Rightarrow> crash e inp
                     | Inr genders \<Rightarrow>
                         (case options df ''month'' of
                            Inl e \<Rightarrow> crash e inp
                          | Inr months \<Rightarrow> render api df states genders months inp)))))"

section \<open>Example datasets\<close>

text \<open>
  The three records of the specification's scenarios, under the header of the CDC
  export, and variations of them used to evaluate the model below.
\<close>

definition cdc_header :: "string list" where
  "cdc_header = [''State of Residence'', ''Month'', ''Month Code'', ''Year Code'',
                 ''Sex of Infant'', ''Births'']"

definition scenario_raw :: frame where
  "scenario_raw =
     \<lparr>columns = cdc_header,
      rows = [[Str ''CA'', Str ''Jan'', Num 1, Num 2025, Str ''M'', Num 100],
              [Str ''CA'', Str ''Jan'', Num 1, Num 2025, Str ''F'', Num 90],
              [Str ''TX'', Str ''Feb'', Num 2, Num 2025, Str ''M'', Num 50]]\<rparr>"

definition scenario_df :: frame where
  "scenario_df = scenario_raw\<lparr>columns := required_cols\<rparr>"

text \<open>A file with one unreadable count, and one with a negative count.\<close>

definition dirty_raw :: frame where
  "dirty_raw =
     \<lparr>columns = cdc_header,
      rows = [[Str ''CA'', Str ''Jan'', Num 1, Num 2025, Str ''M'', Str ''100''],
              [Str ''CA'', Str ''Jan'', Num 1, Num 2025, Str ''F'', Str ''n/a''],
              [Str ''TX'', Str ''Feb'', Num 2, Num 2025, Str ''M'', NaN]]\<rparr>"

definition negative_raw :: frame where
  "negative_raw =
     \<lparr>columns = cdc_header,
      rows = [[Str ''CA'', Str ''Jan'', Num 1, Num 2025, Str ''M'', Num 10],
              [Str ''TX'', Str ''Feb'', Num 2, Num 2025, Str ''M'', Num (- 5)]]\<rparr>"

definition negative_df :: frame where
  "negative_df = negative_raw\<lparr>columns := required_cols\<rparr>"

text \<open>A clean frame with a record whose state is missing, and one with half a birth.\<close>

definition stateless_df :: frame where
  "stateless_df =
     \<lparr>columns = required_cols,
      rows = [[Str ''CA'', Str ''Jan'', Num 1, Num 2025, Str ''M'', Num 100],
              [NaN, Str ''Feb'', Num 2, Num 2025, Str ''F'', Num 50]]\<rparr>"


text \<open>A parser that reads the one numeric text of the examples.\<close>

definition parse_100 :: "string \<Rightarrow> rat option" where
  "parse_100 s = (if s = ''100'' then Some 100 else None)"


definition api_up :: chat_api where
  "api_up ctx question = Inr ''Births are highest in CA.''"

definition all_sel :: "cell list" where
  "all_sel = [Str ''All'']"

text \<open>A file that lacks two of the required columns.\<close>

definition partial_raw :: frame where
  "partial_raw =
     \<lparr>columns = [''State of Residence'', ''Month Code'', ''Year Code'', ''Sex of Infant''],
      rows = [[Str ''CA'', Num 1, Num 2025, Str ''M'']]\<rparr>"

text \<open>A clean frame whose states do not come in the order of their totals.\<close>

definition ranking_df :: frame where
  "ranking_df =
     \<lparr>columns = required_cols,
      rows = [[Str ''TX'', Str ''Jan'', Num 1, Num 2025, Str ''M'', Num 20],
              [Str ''AZ'', Str ''Jan'', Num 1, Num 2025, Str ''F'', Num 10],
              [Str ''CA'', Str ''Feb'', Num 2, Num 2025, Str ''M'', Num 25],
              [Str ''CA'', Str ''Feb'', Num 2, Num 2025, Str ''F'', Num 5]]\<rparr>"

text \<open>
  The first run of a session on the scenario file: nothing chosen but the defaults, no
  question asked, no conversation yet.
\<close>

definition first_visit :: inputs where
  "first_visit =
     \<lparr>read_csv = Inr scenario_raw, chosen_states = all_sel, chosen_genders = all_sel,
      chosen_months = all_sel, chat_input = None, session = None\<rparr>"

section \<open>Properties of the normalizer\<close>

text \<open>The renaming takes the header of the CDC export to the required labels.\<close>

lemma cdc_header_normalized: "map norm_name cdc_header = required_cols"
  by code_simp

lemma scenario_normalized: "normalize parse scenario_raw = Inr scenario_df"
proof -
  have m: "missing (rename scenario_raw) = []"
    by code_simp
  have c: "column (rename scenario_raw) ''births'' = Inr [Num 100, Num 90, Num 50]"
    by code_simp
  have d: "dropna (assign (rename scenario_raw) ''births'' (to_numeric parse)) ''births''
             = scenario_df"
    by code_simp
  show ?thesis by (simp add: normalize_def Let_def m c d)
qed

lemma to_numeric_NaN [simp]: "to_numeric parse NaN = NaN"
  by (simp add: to_numeric_def)

lemma to_numeric_kind: "to_numeric parse c \<noteq> NaN \<Longrightarrow> is_Num (to_numeric parse c)"
  by (auto simp add: to_numeric_def split: cell.splits option.splits)

lemma cell_at_assigned:
  assumes "g NaN = NaN"
  shows "cell_at f c (let i = pos c (columns f) in if i < length r then r[i := g (r ! i)] else r)
           = g (cell_at f c r)"
  using assms by (simp add: cell_at_def Let_def)

lemma cell_at_columns: "columns f = columns f' \<Longrightarrow> cell_at f c r = cell_at f' c r"
  by (simp add: cell_at_def)

lemma births_column_normalized:
  "map (cell_at (dropna (assign f ''births'' (to_numeric parse)) ''births'') ''births'')
       (rows (dropna (assign f ''births'' (to_numeric parse)) ''births''))
     = filter (\<lambda>v. v \<noteq> NaN) (map (\<lambda>r. to_numeric parse (cell_at f ''births'' r)) (rows f))"
proof -
  let ?a = "assign f ''births'' (to_numeric parse)"
  let ?u = "\<lambda>r. let i = pos ''births'' (columns f)
                 in if i < length r then r[i := to_numeric parse (r ! i)] else r"
  have cols: "columns ?a = columns f" by (simp add: assign_def)
  have at: "cell_at ?a ''births'' (?u r) = to_numeric parse (cell_at f ''births'' r)" for r
    using cell_at_assigned [of "to_numeric parse" f "''births''" r]
    by (simp add: cell_at_columns [OF cols])
  have rows_a: "rows ?a = map ?u (rows f)" by (simp add: assign_def)
  have "map (cell_at (dropna ?a ''births'') ''births'') (rows (dropna ?a ''births''))
          = filter (\<lambda>v. v \<noteq> NaN) (map (cell_at ?a ''births'') (rows ?a))"
    by (simp add: dropna_def cell_at_def filter_map comp_def)
  also have "map (cell_at ?a ''births'') (rows ?a)
               = map (\<lambda>r. to_numeric parse (cell_at f ''births'' r)) (rows f)"
    unfolding rows_a by (simp add: at comp_def)
  finally show ?thesis .
qed

lemma missing_none: "missing f = [] \<longleftrightarrow> set required_cols \<subseteq> set (columns f)"
  by (auto simp add: missing_def filter_empty_conv)

lemma normalize_accepts:
  assumes "missing (rename df_raw) = []"
      and "count_list (columns (rename df_raw)) ''births'' = 1"
  shows "normalize parse df_raw
           = Inr (dropna (assign (rename df_raw) ''births'' (to_numeric parse)) ''births'')"
proof -
  have "''births'' \<in> set (columns (rename df_raw))"
    using assms(1) by (auto simp add: missing_none required_cols_def)
  then show ?thesis
    using assms by (simp add: normalize_def column_def Let_def)
qed

text \<open>
  C2, as the code has it. A raw dataset that passes the column check, and in which
  the label \<^verbatim>\<open>births\<close> names one column, is normalized to a frame that has the six
  required columns and whose measure column holds numbers only: the values of the raw
  measure column that coerce to a number, in their order. The sign of a value is not
  examined.
\<close>

theorem normalizer_postcondition:
  assumes "missing (rename df_raw) = []"
      and "count_list (columns (rename df_raw)) ''births'' = 1"
  shows "\<exists>df. normalize parse df_raw = Inr df
           \<and> columns df = map norm_name (columns df_raw)
           \<and> set required_cols \<subseteq> set (columns df)
           \<and> (\<forall>r \<in> set (rows df). is_Num (cell_at df ''births'' r))
           \<and> map (cell_at df ''births'') (rows df)
               = filter (\<lambda>v. v \<noteq> NaN)
                   (map (\<lambda>r. to_numeric parse (cell_at (rename df_raw) ''births'' r))
                        (rows df_raw))"
proof -
  let ?df = "dropna (assign (rename df_raw) ''births'' (to_numeric parse)) ''births''"
  have n: "normalize parse df_raw = Inr ?df"
    using assms by (rule normalize_accepts)
  have cols: "set required_cols \<subseteq> set (columns ?df)"
    using assms(1) by (simp add: missing_none dropna_def assign_def)
  have col: "map (cell_at ?df ''births'') (rows ?df)
               = filter (\<lambda>v. v \<noteq> NaN)
                   (map (\<lambda>r. to_numeric parse (cell_at (rename df_raw) ''births'' r))
                        (rows df_raw))"
    using births_column_normalized [of "rename df_raw" parse] by (simp add: rename_def)
  have "is_Num v" if "v \<in> set (map (cell_at ?df ''births'') (rows ?df))" for v
    using that unfolding col by (auto simp add: to_numeric_kind)
  then have nums: "\<forall>r \<in> set (rows ?df). is_Num (cell_at ?df ''births'' r)"
    by simp
  have names: "columns ?df = map norm_name (columns df_raw)"
    by (simp add: dropna_def assign_def rename_def)
  from n names cols nums col show ?thesis by blast
qed

theorem normalizer_postcondition_witness:
  "\<exists>df. normalize parse_100 dirty_raw = Inr df
      \<and> columns df = required_cols
      \<and> rows df = [[Str ''CA'', Str ''Jan'', Num 1, Num 2025, Str ''M'', Num 100]]
      \<and> map (cell_at df ''births'') (rows df) = [Num 100]"
proof -
  have h1: "missing (rename dirty_raw) = []"
    by code_simp
  have h2: "count_list (columns (rename dirty_raw)) ''births'' = 1"
    by code_simp
  have e: "normalize parse_100 dirty_raw
             = Inr \<lparr>columns = required_cols,
                    rows = [[Str ''CA'', Str ''Jan'', Num 1, Num 2025, Str ''M'', Num 100]]\<rparr>"
    by code_simp
  have v: "filter (\<lambda>v. v \<noteq> NaN)
             (map (\<lambda>r. to_numeric parse_100 (cell_at (rename dirty_raw) ''births'' r))
                  (rows dirty_raw)) = [Num 100]"
    by code_simp
  from normalizer_postcondition [OF h1 h2, of parse_100] obtain df where
    d: "normalize parse_100 dirty_raw = Inr df"
       "map (cell_at df ''births'') (rows df)
          = filter (\<lambda>v. v \<noteq> NaN)
              (map (\<lambda>r. to_numeric parse_100 (cell_at (rename dirty_raw) ''births'' r))
                   (rows dirty_raw))"
    by blast
  from d(1) e have "df = \<lparr>columns = required_cols,
                          rows = [[Str ''CA'', Str ''Jan'', Num 1, Num 2025, Str ''M'', Num 100]]\<rparr>"
    by simp
  with d v show ?thesis by simp
qed

text \<open>
  C2 as stated fails in its last part: a negative count passes the column check and
  the coercion, and is retained.
\<close>

theorem normalizer_nonnegative_counterexample:
  "missing (rename negative_raw) = []
   \<and> normalize (\<lambda>s. None) negative_raw = Inr negative_df
   \<and> [Str ''TX'', Str ''Feb'', Num 2, Num 2025, Str ''M'', Num (- 5)] \<in> set (rows negative_df)
   \<and> births negative_df [Str ''TX'', Str ''Feb'', Num 2, Num 2025, Str ''M'', Num (- 5)] = - 5
   \<and> \<not> 0 \<le> births negative_df [Str ''TX'', Str ''Feb'', Num 2, Num 2025, Str ''M'', Num (- 5)]"
proof -
  let ?r = "[Str ''TX'', Str ''Feb'', Num 2, Num 2025, Str ''M'', Num (- 5)]"
  have a: "missing (rename negative_raw) = []" by code_simp
  have b: "normalize (\<lambda>s. None) negative_raw = Inr negative_df" by code_simp
  have c: "?r \<in> set (rows negative_df)" by code_simp
  have d: "births negative_df ?r = - 5" by code_simp
  show ?thesis using a b c d by simp
qed

section \<open>Properties of the filter engine\<close>

lemma cell_at_keep [simp]: "cell_at (keep f m) c r = cell_at f c r"
  by (simp add: cell_at_def keep_def)

lemma columns_keep [simp]: "columns (keep f m) = columns f"
  by (simp add: keep_def)

lemma rows_keep [simp]: "rows (keep f m) = filter m (rows f)"
  by (simp add: keep_def)


lemma rows_filtered:
  "rows (filtered df ss gs ms) =
     filter (\<lambda>r. (Str ''All'' \<in> set ss \<or> isin (cell_at df ''state_of_residence'' r) ss)
               \<and> (Str ''All'' \<in> set gs \<or> isin (cell_at df ''sex_of_infant'' r) gs)
               \<and> (Str ''All'' \<in> set ms \<or> isin (cell_at df ''month'' r) ms))
            (rows df)"
  by (auto simp add: filtered_def Let_def intro!: filter_cong)



text \<open>
  C1. A row of the dataset is in the filtered output exactly when, in each of the three
  dimensions, the selection holds the sentinel \<^verbatim>\<open>"All"\<close> or the row's value in that
  column is a member of the selection; the three restrictions are conjoined.
\<close>

theorem filter_semantics:
  "r \<in> set (rows (filtered df state_sel gender_sel month_sel)) \<longleftrightarrow>
     r \<in> set (rows df)
     \<and> (Str ''All'' \<in> set state_sel \<or> cell_at df ''state_of_residence'' r \<in> set state_sel)
     \<and> (Str ''All'' \<in> set gender_sel \<or> cell_at df ''sex_of_infant'' r \<in> set gender_sel)
     \<and> (Str ''All'' \<in> set month_sel \<or> cell_at df ''month'' r \<in> set month_sel)"
  by (simp add: rows_filtered isin_def)

theorem filter_semantics_witness:
  "[Str ''CA'', Str ''Jan'', Num 1, Num 2025, Str ''F'', Num 90]
      \<in> set (rows (filtered scenario_df [Str ''CA''] all_sel all_sel))
   \<and> [Str ''TX'', Str ''Feb'', Num 2, Num 2025, Str ''M'', Num 50]
      \<notin> set (rows (filtered scenario_df [Str ''CA''] all_sel all_sel))
   \<and> [Str ''TX'', Str ''Feb'', Num 2, Num 2025, Str ''M'', Num 50] \<in> set (rows scenario_df)"
proof -
  let ?ca = "[Str ''CA'', Str ''Jan'', Num 1, Num 2025, Str ''F'', Num 90]"
  let ?tx = "[Str ''TX'', Str ''Feb'', Num 2, Num 2025, Str ''M'', Num 50]"
  have m: "?ca \<in> set (rows scenario_df)" "?tx \<in> set (rows scenario_df)"
    by code_simp+
  have c: "cell_at scenario_df ''state_of_residence'' ?ca = Str ''CA''"
      "cell_at scenario_df ''state_of_residence'' ?tx = Str ''TX''"
    by code_simp+
  from filter_semantics [of ?ca scenario_df "[Str ''CA'']" all_sel all_sel]
       filter_semantics [of ?tx scenario_df "[Str ''CA'']" all_sel all_sel] m c
  show ?thesis by (simp add: all_sel_def)
qed

text \<open>
  C4. A selection that holds \<^verbatim>\<open>"All"\<close> in one dimension gives the output of the same
  selection with that dimension left at its unrestricted default \<^verbatim>\<open>["All"]\<close>, whatever
  else is chosen in that dimension; this holds in each of the three dimensions.
\<close>

theorem all_is_identity:
  "(Str ''All'' \<in> set state_sel \<longrightarrow>
      filtered df state_sel gender_sel month_sel = filtered df [Str ''All''] gender_sel month_sel
      \<and> (Str ''All'' \<in> set state_sel' \<longrightarrow>
           filtered df state_sel gender_sel month_sel
             = filtered df state_sel' gender_sel month_sel))
   \<and> (Str ''All'' \<in> set gender_sel \<longrightarrow>
      filtered df state_sel gender_sel month_sel = filtered df state_sel [Str ''All''] month_sel
      \<and> (Str ''All'' \<in> set gender_sel' \<longrightarrow>
           filtered df state_sel gender_sel month_sel
             = filtered df state_sel gender_sel' month_sel))
   \<and> (Str ''All'' \<in> set month_sel \<longrightarrow>
      filtered df state_sel gender_sel month_sel = filtered df state_sel gender_sel [Str ''All'']
      \<and> (Str ''All'' \<in> set month_sel' \<longrightarrow>
           filtered df state_sel gender_sel month_sel
             = filtered df state_sel gender_sel month_sel'))"
  by (simp add: filtered_def Let_def)

theorem all_is_identity_witness:
  "filtered scenario_df [Str ''TX'', Str ''All''] [Str ''M''] all_sel
     = filtered scenario_df [Str ''All''] [Str ''M''] all_sel
   \<and> filtered scenario_df [Str ''TX'', Str ''All''] [Str ''M''] all_sel
     = filtered scenario_df [Str ''All'', Str ''CA''] [Str ''M''] all_sel
   \<and> filtered scenario_df [Str ''CA''] [Str ''All'', Str ''F''] all_sel
     = filtered scenario_df [Str ''CA''] [Str ''All''] all_sel
   \<and> filtered scenario_df [Str ''CA''] all_sel [Str ''Feb'', Str ''All'']
     = filtered scenario_df [Str ''CA''] all_sel [Str ''All'']
   \<and> rows (filtered scenario_df [Str ''All''] [Str ''M''] all_sel)
     = [[Str ''CA'', Str ''Jan'', Num 1, Num 2025, Str ''M'', Num 100],
        [Str ''TX'', Str ''Feb'', Num 2, Num 2025, Str ''M'', Num 50]]"
proof -
  have rows_M: "rows (filtered scenario_df [Str ''All''] [Str ''M''] all_sel)
     = [[Str ''CA'', Str ''Jan'', Num 1, Num 2025, Str ''M'', Num 100],
        [Str ''TX'', Str ''Feb'', Num 2, Num 2025, Str ''M'', Num 50]]"
    by code_simp
  have m1: "Str ''All'' \<in> set [Str ''TX'', Str ''All'']"
    and m2: "Str ''All'' \<in> set [Str ''All'', Str ''CA'']"
    and m3: "Str ''All'' \<in> set [Str ''All'', Str ''F'']"
    and m4: "Str ''All'' \<in> set [Str ''Feb'', Str ''All'']"
    by simp_all
  note st = all_is_identity [where df = scenario_df and state_sel = "[Str ''TX'', Str ''All'']"
      and state_sel' = "[Str ''All'', Str ''CA'']" and gender_sel = "[Str ''M'']"
      and month_sel = all_sel, THEN conjunct1, THEN mp, OF m1]
  note ge = all_is_identity [where df = scenario_df and state_sel = "[Str ''CA'']"
      and gender_sel = "[Str ''All'', Str ''F'']" and month_sel = all_sel,
      THEN conjunct2, THEN conjunct1, THEN mp, OF m3]
  note mo = all_is_identity [where df = scenario_df and state_sel = "[Str ''CA'']"
      and gender_sel = all_sel and month_sel = "[Str ''Feb'', Str ''All'']",
      THEN conjunct2, THEN conjunct2, THEN mp, OF m4]
  have a: "filtered scenario_df [Str ''TX'', Str ''All''] [Str ''M''] all_sel
             = filtered scenario_df [Str ''All''] [Str ''M''] all_sel"
    by (rule st [THEN conjunct1])
  have b: "filtered scenario_df [Str ''TX'', Str ''All''] [Str ''M''] all_sel
             = filtered scenario_df [Str ''All'', Str ''CA''] [Str ''M''] all_sel"
    by (rule st [THEN conjunct2, THEN mp, OF m2])
  have c: "filtered scenario_df [Str ''CA''] [Str ''All'', Str ''F''] all_sel
             = filtered scenario_df [Str ''CA''] [Str ''All''] all_sel"
    by (rule ge [THEN conjunct1])
  have d: "filtered scenario_df [Str ''CA''] all_sel [Str ''Feb'', Str ''All'']
             = filtered scenario_df [Str ''CA''] all_sel [Str ''All'']"
    by (rule mo [THEN conjunct1])
  from a b c d rows_M show ?thesis by blast
qed

section \<open>Missing values in the filter columns\<close>

lemma set_unique [simp]: "set (unique xs) = set xs"
  by (simp add: unique_def)

lemma distinct_unique [simp]: "distinct (unique xs)"
  by (simp add: unique_def)

lemma options_no_NaN: "options df c = Inr opts \<Longrightarrow> NaN \<notin> set opts"
  by (auto simp add: options_def py_sorted_def split: sum.splits if_splits)

text \<open>
  C10. The options offered for each dimension hold no missing value. So with
  selections taken from the offered options, every row of the filtered output whose
  value in a filter column is missing is there only because the selection of that
  dimension holds \<^verbatim>\<open>"All"\<close>: without it such a row is excluded.
\<close>

theorem missing_values_unreachable:
  assumes "options df ''state_of_residence'' = Inr states"
      and "options df ''sex_of_infant'' = Inr genders"
      and "options df ''month'' = Inr months"
      and "set state_sel \<subseteq> set (Str ''All'' # states)"
      and "set gender_sel \<subseteq> set (Str ''All'' # genders)"
      and "set month_sel \<subseteq> set (Str ''All'' # months)"
  shows "NaN \<notin> set states \<and> NaN \<notin> set genders \<and> NaN \<notin> set months
       \<and> (\<forall>r \<in> set (rows (filtered df state_sel gender_sel month_sel)).
            (cell_at df ''state_of_residence'' r = NaN \<longrightarrow> Str ''All'' \<in> set state_sel)
          \<and> (cell_at df ''sex_of_infant'' r = NaN \<longrightarrow> Str ''All'' \<in> set gender_sel)
          \<and> (cell_at df ''month'' r = NaN \<longrightarrow> Str ''All'' \<in> set month_sel))"
proof -
  have n1: "NaN \<notin> set states" and n2: "NaN \<notin> set genders" and n3: "NaN \<notin> set months"
    using assms(1-3) by (auto dest: options_no_NaN)
  have s1: "NaN \<notin> set state_sel" using n1 assms(4) by auto
  have s2: "NaN \<notin> set gender_sel" using n2 assms(5) by auto
  have s3: "NaN \<notin> set month_sel" using n3 assms(6) by auto
  have "(cell_at df ''state_of_residence'' r = NaN \<longrightarrow> Str ''All'' \<in> set state_sel)
      \<and> (cell_at df ''sex_of_infant'' r = NaN \<longrightarrow> Str ''All'' \<in> set gender_sel)
      \<and> (cell_at df ''month'' r = NaN \<longrightarrow> Str ''All'' \<in> set month_sel)"
    if "r \<in> set (rows (filtered df state_sel gender_sel month_sel))" for r
  proof -
    from that have
      "Str ''All'' \<in> set state_sel \<or> cell_at df ''state_of_residence'' r \<in> set state_sel"
      "Str ''All'' \<in> set gender_sel \<or> cell_at df ''sex_of_infant'' r \<in> set gender_sel"
      "Str ''All'' \<in> set month_sel \<or> cell_at df ''month'' r \<in> set month_sel"
      by (simp_all add: rows_filtered isin_def)
    with s1 s2 s3 show ?thesis by auto
  qed
  with n1 n2 n3 show ?thesis by blast
qed

theorem missing_values_unreachable_witness:
  "options stateless_df ''state_of_residence'' = Inr [Str ''CA'']
   \<and> [NaN, Str ''Feb'', Num 2, Num 2025, Str ''F'', Num 50] \<in> set (rows stateless_df)
   \<and> [NaN, Str ''Feb'', Num 2, Num 2025, Str ''F'', Num 50]
        \<notin> set (rows (filtered stateless_df [Str ''CA''] all_sel all_sel))
   \<and> [NaN, Str ''Feb'', Num 2, Num 2025, Str ''F'', Num 50]
        \<in> set (rows (filtered stateless_df [Str ''CA'', Str ''All''] all_sel all_sel))"
proof -
  let ?r = "[NaN, Str ''Feb'', Num 2, Num 2025, Str ''F'', Num 50]"
  have o1: "options stateless_df ''state_of_residence'' = Inr [Str ''CA'']"
    by code_simp
  have o2: "options stateless_df ''sex_of_infant'' = Inr [Str ''F'', Str ''M'']"
    by code_simp
  have o3: "options stateless_df ''month'' = Inr [Str ''Feb'', Str ''Jan'']"
    by code_simp
  have c1: "set [Str ''CA''] \<subseteq> set (Str ''All'' # [Str ''CA''])"
    by simp
  have c2: "set all_sel \<subseteq> set (Str ''All'' # [Str ''F'', Str ''M''])"
    by (simp add: all_sel_def)
  have c3: "set all_sel \<subseteq> set (Str ''All'' # [Str ''Feb'', Str ''Jan''])"
    by (simp add: all_sel_def)
  have nan: "cell_at stateless_df ''state_of_residence'' ?r = NaN"
    by code_simp
  have out: "?r \<notin> set (rows (filtered stateless_df [Str ''CA''] all_sel all_sel))"
    using missing_values_unreachable [OF o1 o2 o3 c1 c2 c3] nan by auto
  have mem: "?r \<in> set (rows stateless_df)"
    by code_simp
  have inn: "?r \<in> set (rows (filtered stateless_df [Str ''CA'', Str ''All''] all_sel all_sel))"
    by code_simp
  show ?thesis using o1 mem out inn by simp
qed

section \<open>Sums under restriction\<close>






section \<open>Consistency and order of the aggregates\<close>

text \<open>The chart aggregate and the grand total of the first scenario.\<close>

lemma scenario_chart:
  "agg scenario_df
     = [(Str ''CA'', Str ''F'', 90), (Str ''CA'', Str ''M'', 100), (Str ''TX'', Str ''M'', 50)]"
  by code_simp

lemma scenario_total:
  "total_births (build_context scenario_df all_sel all_sel all_sel) = 240"
  by code_simp


lemma distinct_group_keys: "distinct (group_keys f c)"
  by (simp add: group_keys_def)









text \<open>
  C9. The per-state totals of the context are the per-state sums of the view put in
  descending order of value, one entry per state.
\<close>

theorem state_totals_descending:
  "sorted_wrt (\<lambda>a b. snd a \<ge> snd b)
     (state_totals (build_context fl state_sel gender_sel month_sel))
   \<and> mset (state_totals (build_context fl state_sel gender_sel month_sel))
       = mset (groupby_sum fl ''state_of_residence'')
   \<and> distinct (map fst (state_totals (build_context fl state_sel gender_sel month_sel)))"
proof -
  let ?g = "groupby_sum fl ''state_of_residence''"
  have "sorted (map (\<lambda>kv. - snd kv) (sort_values_desc ?g))"
    by (simp add: sort_values_desc_def)
  then have 1: "sorted_wrt (\<lambda>a b. snd a \<ge> snd b) (sort_values_desc ?g)"
    by (simp add: sorted_map)
  have 2: "mset (sort_values_desc ?g) = mset ?g"
    by (simp add: sort_values_desc_def)
  have "map fst ?g = group_keys fl ''state_of_residence''"
    by (simp add: groupby_sum_def comp_def)
  then have "distinct (map fst ?g)" by (simp add: distinct_group_keys)
  then have 3: "distinct (map fst (sort_values_desc ?g))"
    by (simp add: distinct_map sort_values_desc_def)
  show ?thesis using 1 2 3 by (simp add: build_context_def)
qed

theorem state_totals_descending_witness:
  "groupby_sum ranking_df ''state_of_residence''
     = [(Str ''AZ'', 10), (Str ''CA'', 30), (Str ''TX'', 20)]
   \<and> state_totals (build_context ranking_df all_sel all_sel all_sel)
     = [(Str ''CA'', 30), (Str ''TX'', 20), (Str ''AZ'', 10)]
   \<and> sorted_wrt (\<lambda>a b. snd a \<ge> snd b)
        (state_totals (build_context ranking_df all_sel all_sel all_sel))"
proof -
  have g: "groupby_sum ranking_df ''state_of_residence''
             = [(Str ''AZ'', 10), (Str ''CA'', 30), (Str ''TX'', 20)]"
    by code_simp
  have s: "state_totals (build_context ranking_df all_sel all_sel all_sel)
             = [(Str ''CA'', 30), (Str ''TX'', 20), (Str ''AZ'', 10)]"
    by code_simp
  from state_totals_descending [of ranking_df all_sel all_sel all_sel] g s
  show ?thesis by simp
qed

section \<open>Properties of a run of the page\<close>

lemma run_render:
  assumes "read_csv inp = Inr df_raw"
      and "normalize parse df_raw = Inr df"
      and "options df ''state_of_residence'' = Inr states"
      and "options df ''sex_of_infant'' = Inr genders"
      and "options df ''month'' = Inr months"
  shows "run parse api inp = render api df states genders months inp"
  using assms by (simp add: run_def load_data_def)

text \<open>
  C7. When the run reaches the filter and the filtered dataset is empty, the page is
  the banner, the sidebar with its three controls and the warning, and nothing else:
  no chart, no table, no chat section. The conversation of the session is untouched.
\<close>

theorem empty_result_halts:
  assumes "read_csv inp = Inr df_raw"
      and "normalize parse df_raw = Inr df"
      and "options df ''state_of_residence'' = Inr states"
      and "options df ''sex_of_infant'' = Inr genders"
      and "options df ''month'' = Inr months"
      and "rows (filtered df (chosen_states inp) (chosen_genders inp) (chosen_months inp)) = []"
  shows "run parse api inp =
          ([Title ''Provisional Natality Data Dashboard'',
            Subheader ''Birth Analysis by State and Gender'',
            SidebarHeader ''Filters'',
            Multiselect ''State'' (Str ''All'' # states) [Str ''All''],
            Multiselect ''Gender'' (Str ''All'' # genders) [Str ''All''],
            Multiselect ''Month'' (Str ''All'' # months) [Str ''All''],
            Warning ''No data matches selected filters.''],
           session inp)"
  using assms(6)
  by (simp add: run_render [OF assms(1-5)] render_def banner_def sidebar_def Let_def)

theorem empty_result_halts_witness:
  "run parse_100 api_up
     (first_visit\<lparr>chosen_states := [Str ''TX''], chosen_genders := [Str ''F''],
                  chat_input := Some ''How many births?''\<rparr>) =
     ([Title ''Provisional Natality Data Dashboard'',
       Subheader ''Birth Analysis by State and Gender'',
       SidebarHeader ''Filters'',
       Multiselect ''State'' [Str ''All'', Str ''CA'', Str ''TX''] [Str ''All''],
       Multiselect ''Gender'' [Str ''All'', Str ''F'', Str ''M''] [Str ''All''],
       Multiselect ''Month'' [Str ''All'', Str ''Feb'', Str ''Jan''] [Str ''All''],
       Warning ''No data matches selected filters.''],
      None)"
proof -
  let ?inp = "first_visit\<lparr>chosen_states := [Str ''TX''], chosen_genders := [Str ''F''],
                chat_input := Some ''How many births?''\<rparr>"
  have r: "read_csv ?inp = Inr scenario_raw"
    by (simp add: first_visit_def)
  have n: "normalize parse_100 scenario_raw = Inr scenario_df"
    by code_simp
  have o1: "options scenario_df ''state_of_residence'' = Inr [Str ''CA'', Str ''TX'']"
    by code_simp
  have o2: "options scenario_df ''sex_of_infant'' = Inr [Str ''F'', Str ''M'']"
    by code_simp
  have o3: "options scenario_df ''month'' = Inr [Str ''Feb'', Str ''Jan'']"
    by code_simp
  have e: "rows (filtered scenario_df (chosen_states ?inp) (chosen_genders ?inp)
                   (chosen_months ?inp)) = []"
    by code_simp
  have s: "session ?inp = None"
    by (simp add: first_visit_def)
  from empty_result_halts [OF r n o1 o2 o3 e, of api_up] s show ?thesis by simp
qed



text \<open>
  C8, as the code has it. When \<^verbatim>\<open>read_csv\<close> raises, the loader returns \<^verbatim>\<open>None\<close> and
  the page is the banner followed by the error \<^verbatim>\<open>Dataset file not found in repository.\<close>
  When a required column is missing after the renaming, the page is the banner
  followed by an error that lists the missing labels. In both cases the run ends there.
\<close>

theorem loader_failure_halts:
  "(read_csv inp = Inl e \<longrightarrow>
      load_data (read_csv inp) = None
      \<and> run parse api inp =
          ([Title ''Provisional Natality Data Dashboard'',
            Subheader ''Birth Analysis by State and Gender'',
            Error ''Dataset file not found in repository.''], session inp))
   \<and> (read_csv inp = Inr df_raw \<and> missing (rename df_raw) \<noteq> [] \<longrightarrow>
      run parse api inp =
          ([Title ''Provisional Natality Data Dashboard'',
            Subheader ''Birth Analysis by State and Gender'',
            Error (''Missing required columns: '' @ py_repr (missing (rename df_raw)))],
           session inp))"
  by (simp add: run_def load_data_def normalize_def banner_def Let_def)

theorem loader_failure_halts_witness:
  "run parse_100 api_up (first_visit\<lparr>read_csv := Inl FileNotFoundError\<rparr>)
     = ([Title ''Provisional Natality Data Dashboard'',
         Subheader ''Birth Analysis by State and Gender'',
         Error ''Dataset file not found in repository.''], None)
   \<and> run parse_100 api_up (first_visit\<lparr>read_csv := Inr partial_raw\<rparr>)
     = ([Title ''Provisional Natality Data Dashboard'',
         Subheader ''Birth Analysis by State and Gender'',
         Error (''Missing required columns: [''
                @ quoted ''month'' @ '', '' @ quoted ''births'' @ '']'')], None)"
proof -
  let ?gone = "first_visit\<lparr>read_csv := Inl FileNotFoundError\<rparr>"
  let ?part = "first_visit\<lparr>read_csv := Inr partial_raw\<rparr>"
  have g: "read_csv ?gone = Inl FileNotFoundError" and gs: "session ?gone = None"
    by (simp_all add: first_visit_def)
  have p: "read_csv ?part = Inr partial_raw" and ps: "session ?part = None"
    by (simp_all add: first_visit_def)
  have m: "missing (rename partial_raw) = [''month'', ''births'']"
    by code_simp
  have t: "''Missing required columns: '' @ py_repr [''month'', ''births'']
             = ''Missing required columns: [''
                 @ quoted ''month'' @ '', '' @ quoted ''births'' @ '']''"
    by (simp add: py_repr_def)
  have one: "run parse_100 api_up ?gone
     = ([Title ''Provisional Natality Data Dashboard'',
         Subheader ''Birth Analysis by State and Gender'',
         Error ''Dataset file not found in repository.''], None)"
    using loader_failure_halts [where inp = ?gone and e = FileNotFoundError
        and parse = parse_100 and api = api_up] g gs
    by simp
  have two: "run parse_100 api_up ?part
     = ([Title ''Provisional Natality Data Dashboard'',
         Subheader ''Birth Analysis by State and Gender'',
         Error (''Missing required columns: [''
                @ quoted ''month'' @ '', '' @ quoted ''births'' @ '']'')], None)"
    using loader_failure_halts [where inp = ?part and df_raw = partial_raw
        and parse = parse_100 and api = api_up] p ps m t
    by simp
  from one two show ?thesis by (rule conjI)
qed

text \<open>
  C8 as stated fails in the wording of the message, and the banner is on the page
  before the error.
\<close>

theorem loader_message_counterexample:
  "load_data (read_csv (first_visit\<lparr>read_csv := Inl FileNotFoundError\<rparr>)) = None
   \<and> fst (run parse_100 api_up (first_visit\<lparr>read_csv := Inl FileNotFoundError\<rparr>))
       = [Title ''Provisional Natality Data Dashboard'',
          Subheader ''Birth Analysis by State and Gender'',
          Error ''Dataset file not found in repository.'']
   \<and> Error ''Dataset file not found.''
       \<notin> set (fst (run parse_100 api_up (first_visit\<lparr>read_csv := Inl FileNotFoundError\<rparr>)))"
proof -
  let ?gone = "first_visit\<lparr>read_csv := Inl FileNotFoundError\<rparr>"
  have a: "load_data (read_csv ?gone) = None"
    by (simp add: first_visit_def load_data_def)
  then have b: "fst (run parse_100 api_up ?gone)
       = [Title ''Provisional Natality Data Dashboard'',
          Subheader ''Birth Analysis by State and Gender'',
          Error ''Dataset file not found in repository.'']"
    by (simp add: run_def banner_def)
  show ?thesis using a unfolding b by simp
qed

end
